theory Spec2Isabelle
  imports Main "HOL-Library.Sublist"
begin

section \<open>The values a decoder returns\<close>

text \<open>
  \<^verbatim>\<open>yaml.parse\<close> and \<^verbatim>\<open>JSON.parse\<close> return an untyped JavaScript value. The model
  has the values of the JSON data model: null, a boolean, a number, a string, an array,
  or a plain object. Reading a property that is not there gives \<^verbatim>\<open>undefined\<close>, which
  is a value of its own.

  A number is kept as its decimal text, the text ECMAScript's Number-to-string conversion
  gives (\<^verbatim>\<open>1\<close>, \<^verbatim>\<open>1.5\<close>, \<^verbatim>\<open>NaN\<close>, and \<^verbatim>\<open>0\<close> for both zeros). The scanner does
  two things with a number only: it tests it for truth and it uses it as a property key,
  and both are read off that text.

  A string is a list of characters, one per UTF-16 code unit; no character of the model
  is a surrogate, so iterating a string yields its characters one by one.

  An object is the list of the properties a read finds on it, first match first.
\<close>

datatype jsval =
    JUndefined
  | JNull
  | JBool bool
  | JNum string
  | JStr string
  | JArr "jsval list"
  | JObj "(string \<times> jsval) list"

text \<open>
  What the code throws. The parsers throw errors of their own; the engine throws a
  \<^verbatim>\<open>TypeError\<close>, whose wording is the engine's. Each carries the text of \<^verbatim>\<open>e.message\<close>.
\<close>

datatype error = Error string | TypeError string

fun message :: "error \<Rightarrow> string" where
  "message (Error m) = m"
| "message (TypeError m) = m"

subsection \<open>Truth, property reads, iteration\<close>

text \<open>\<^verbatim>\<open>!!v\<close>, and the condition of \<^verbatim>\<open>v ? a : b\<close> and \<^verbatim>\<open>v || b\<close>.\<close>

fun truthy :: "jsval \<Rightarrow> bool" where
  "truthy JUndefined = False"
| "truthy JNull = False"
| "truthy (JBool b) = b"
| "truthy (JNum n) = (n \<noteq> ''0'' \<and> n \<noteq> ''NaN'')"
| "truthy (JStr s) = (s \<noteq> [])"
| "truthy (JArr xs) = True"
| "truthy (JObj kvs) = True"

text \<open>\<^verbatim>\<open>a || b\<close>.\<close>

definition orElse :: "jsval \<Rightarrow> jsval \<Rightarrow> jsval" where
  "orElse a b = (if truthy a then a else b)"

text \<open>
  \<^verbatim>\<open>v.key\<close> for a value \<open>v\<close> that is neither null nor undefined, and for the keys the
  scanner reads (\<^verbatim>\<open>env\<close>, \<^verbatim>\<open>services\<close>, \<^verbatim>\<open>branches\<close>, \<^verbatim>\<open>only\<close>, \<^verbatim>\<open>except\<close>,
  \<^verbatim>\<open>language\<close>, \<^verbatim>\<open>script\<close>, \<^verbatim>\<open>addons\<close>, \<^verbatim>\<open>before_install\<close>, \<^verbatim>\<open>after_success\<close>,
  \<^verbatim>\<open>node_js\<close>): none of them is a built-in property of a string, a number, a boolean or
  an array, so the read gives undefined there.
\<close>

fun get :: "jsval \<Rightarrow> string \<Rightarrow> jsval" where
  "get (JObj kvs) key = (case map_of kvs key of Some v \<Rightarrow> v | None \<Rightarrow> JUndefined)"
| "get v key = JUndefined"

text \<open>
  The values \<^verbatim>\<open>for (const e of v)\<close> runs through: the elements of an array, the
  characters of a string; anything else is not iterable and the loop throws.
\<close>

fun iterate :: "jsval \<Rightarrow> error + jsval list" where
  "iterate (JArr xs) = Inr xs"
| "iterate (JStr s) = Inr (map (\<lambda>c. JStr [c]) s)"
| "iterate v = Inl (TypeError ''value is not iterable'')"

subsection \<open>Strings\<close>

text \<open>\<^verbatim>\<open>s.indexOf(t)\<close>: the first position at which \<open>t\<close> occurs in \<open>s\<close>, or \<open>-1\<close>.\<close>

fun indexOfFrom :: "string \<Rightarrow> string \<Rightarrow> nat \<Rightarrow> int" where
  "indexOfFrom [] t i = (if t = [] then int i else - 1)"
| "indexOfFrom (c # cs) t i =
     (if prefix t (c # cs) then int i else indexOfFrom cs t (Suc i))"

definition indexOf :: "string \<Rightarrow> string \<Rightarrow> int" where
  "indexOf s t = indexOfFrom s t 0"

text \<open>
  \<^verbatim>\<open>s.substring(start, end)\<close>: both indices are clamped to \<open>0 .. length s\<close>, and swapped
  when the first is the larger. \<^verbatim>\<open>s.substring(start)\<close> runs to the end of \<open>s\<close>.
\<close>

definition clampIndex :: "int \<Rightarrow> nat \<Rightarrow> nat" where
  "clampIndex i len = nat (min (max i 0) (int len))"

definition substring :: "string \<Rightarrow> int \<Rightarrow> int \<Rightarrow> string" where
  "substring s start stop =
     (let finalStart = clampIndex start (length s);
          finalEnd = clampIndex stop (length s);
          lo = min finalStart finalEnd;
          hi = max finalStart finalEnd
      in take (hi - lo) (drop lo s))"

definition substringFrom :: "string \<Rightarrow> int \<Rightarrow> string" where
  "substringFrom s start = substring s start (int (length s))"

text \<open>\<^verbatim>\<open>s.startsWith(t)\<close>.\<close>

definition startsWith :: "string \<Rightarrow> string \<Rightarrow> bool" where
  "startsWith s t = prefix t s"

subsection \<open>Property keys and property writes\<close>

text \<open>
  \<^verbatim>\<open>obj[e] = ...\<close> turns \<open>e\<close> into a string first. An array is its elements joined by
  commas, null and undefined elements being empty; an object is \<^verbatim>\<open>[object Object]\<close>,
  unless it has a \<^verbatim>\<open>toString\<close> property of its own: a decoded property is never a
  function, the inherited \<^verbatim>\<open>valueOf\<close> returns the object, and the conversion throws.
\<close>

fun join :: "string \<Rightarrow> string list \<Rightarrow> string" where
  "join sep [] = []"
| "join sep [x] = x"
| "join sep (x # y # ys) = x @ sep @ join sep (y # ys)"

definition sequence :: "(error + 'a) list \<Rightarrow> error + 'a list" where
  "sequence rs =
     foldr (\<lambda>r acc. case r of
                Inl err \<Rightarrow> Inl err
              | Inr x \<Rightarrow> (case acc of Inl err \<Rightarrow> Inl err | Inr xs \<Rightarrow> Inr (x # xs)))
       rs (Inr [])"

fun toPropertyKey :: "jsval \<Rightarrow> error + string" where
  "toPropertyKey JUndefined = Inr ''undefined''"
| "toPropertyKey JNull = Inr ''null''"
| "toPropertyKey (JBool b) = Inr (if b then ''true'' else ''false'')"
| "toPropertyKey (JNum n) = Inr n"
| "toPropertyKey (JStr s) = Inr s"
| "toPropertyKey (JArr xs) =
     (case sequence (map (\<lambda>x. if x = JUndefined \<or> x = JNull then Inr []
                                else toPropertyKey x) xs) of
        Inl err \<Rightarrow> Inl err
      | Inr parts \<Rightarrow> Inr (join '','' parts))"
| "toPropertyKey (JObj kvs) =
     (if ''toString'' \<in> fst ` set kvs
      then Inl (TypeError ''Cannot convert object to primitive value'')
      else Inr ''[object Object]'')"

text \<open>
  \<^verbatim>\<open>obj[key] = v\<close> on an object that started as the literal \<^verbatim>\<open>{}\<close>: the object gets
  the property, except under the key \<^verbatim>\<open>__proto__\<close>, where the write goes to the accessor
  inherited from \<^verbatim>\<open>Object.prototype\<close> and the object's own properties stay as they were.
\<close>

definition assign :: "(string \<rightharpoonup> 'v) \<Rightarrow> string \<Rightarrow> 'v \<Rightarrow> (string \<rightharpoonup> 'v)" where
  "assign obj key v = (if key = ''__proto__'' then obj else obj(key \<mapsto> v))"

section \<open>The scanner's data\<close>

text \<open>
  The project and its files are the caller's: \<^verbatim>\<open>p.name\<close>, \<^verbatim>\<open>p.getFile(path)\<close>, which
  gives a file or nothing, and \<^verbatim>\<open>file.getContent()\<close>, which gives the text or fails.
\<close>

record File =
  getContent :: "error + string"

record project =
  name :: string
  getFile :: "string \<Rightarrow> File option"

text \<open>
  \<^verbatim>\<open>TravisBranchRules\<close> and \<^verbatim>\<open>TravisCi\<close>. The interface types the lists as strings; what
  is stored is whatever the decoder returned, so the lists hold values. \<^verbatim>\<open>env\<close> and
  \<^verbatim>\<open>services\<close> are objects used as dictionaries. \<^verbatim>\<open>canEmulate\<close> is optional and is set
  after the object is built.
\<close>

record TravisBranchRules =
  except :: "jsval list"
  only :: "jsval list"

record TravisCi =
  name :: string
  projectName :: string
  branches :: "TravisBranchRules option"
  language :: jsval
  scripts :: "jsval list"
  env :: "string \<rightharpoonup> string"
  addons :: jsval
  beforeInstall :: "jsval list"
  afterSuccess :: "jsval list"
  services :: "string \<rightharpoonup> jsval"
  referencedEnvironmentVariables :: "string list"
  tags :: "string list"
  nodeJs :: "jsval list"
  canEmulate :: "bool option"

text \<open>One call of \<^verbatim>\<open>logger.warn(format, argument)\<close>.\<close>

datatype logEntry = Warn string "string list"

section \<open>The scanner\<close>

definition usesUnsupportedFeatures :: "TravisCi \<Rightarrow> bool" where
  "usesUnsupportedFeatures travis = (if truthy (addons travis) then True else False)"

text \<open>
  Modelled from the spec: \<^verbatim>\<open>toStringArray\<close> is imported from
  \<^verbatim>\<open>@atomist/automation-client\<close> and its code is not part of the repository. The
  specification gives its rule: a scalar becomes a one-element sequence, a sequence is
  itself, an absent value is the empty sequence.
\<close>

definition toStringArray :: "jsval \<Rightarrow> jsval list" where
  "toStringArray strings =
     (case strings of
        JArr xs \<Rightarrow> xs
      | JUndefined \<Rightarrow> []
      | JNull \<Rightarrow> []
      | _ \<Rightarrow> [strings])"

text \<open>
  First YAML, then JSON. The parsers are the libraries' and are parameters here. The
  first component of the result lists the parsers that were called, in order.
\<close>

datatype parser = Yaml | Json

definition tryAsYamlThenJson ::
  "(string \<Rightarrow> error + jsval) \<Rightarrow> (string \<Rightarrow> error + jsval) \<Rightarrow> string
     \<Rightarrow> parser list \<times> (error + jsval)" where
  "tryAsYamlThenJson yaml_parse JSON_parse content =
     (case yaml_parse content of
        Inr v \<Rightarrow> ([Yaml], Inr v)
      | Inl err \<Rightarrow> ([Yaml, Json], JSON_parse content))"

text \<open>
  The body of the loop over \<^verbatim>\<open>env\<close> for a string \<open>e\<close>: the key and the value that
  \<^verbatim>\<open>env[key] = value\<close> stores.
\<close>

definition envEntry :: "string \<Rightarrow> string \<times> string" where
  "envEntry e =
     (let key = substring e 0 (indexOf e ''='');
          val = substringFrom e (int (length key) + 1);
          val = (if startsWith val [CHR 0x22]
                 then substring val 1 (int (length val) - 1)
                 else val)
      in (key, val))"

text \<open>
  The loop. An entry that is not a string has no \<^verbatim>\<open>substring\<close> method, and the call
  throws.
\<close>

fun envLoop :: "(string \<rightharpoonup> string) \<Rightarrow> jsval list \<Rightarrow> error + (string \<rightharpoonup> string)" where
  "envLoop acc [] = Inr acc"
| "envLoop acc (e # es) =
     (case e of
        JStr s \<Rightarrow> (case envEntry s of (key, val) \<Rightarrow> envLoop (assign acc key val) es)
      | JUndefined \<Rightarrow> Inl (TypeError ''Cannot read properties of undefined'')
      | JNull \<Rightarrow> Inl (TypeError ''Cannot read properties of null'')
      | _ \<Rightarrow> Inl (TypeError ''e.substring is not a function''))"

definition envOf :: "jsval \<Rightarrow> error + (string \<rightharpoonup> string)" where
  "envOf nativeEnv =
     (case iterate (orElse nativeEnv (JArr [])) of
        Inl err \<Rightarrow> Inl err
      | Inr es \<Rightarrow> envLoop Map.empty es)"

text \<open>The services: one name, or a list of names.\<close>

fun servicesLoop :: "(string \<rightharpoonup> jsval) \<Rightarrow> jsval list \<Rightarrow> error + (string \<rightharpoonup> jsval)" where
  "servicesLoop acc [] = Inr acc"
| "servicesLoop acc (e # es) =
     (case toPropertyKey e of
        Inl err \<Rightarrow> Inl err
      | Inr key \<Rightarrow> servicesLoop (assign acc key (JObj [])) es)"

definition servicesOf :: "jsval \<Rightarrow> error + (string \<rightharpoonup> jsval)" where
  "servicesOf nativeServices =
     (case nativeServices of
        JStr s \<Rightarrow> Inr (assign Map.empty s (JObj []))
      | _ \<Rightarrow> (case iterate (orElse nativeServices (JArr [])) of
                Inl err \<Rightarrow> Inl err
              | Inr es \<Rightarrow> servicesLoop Map.empty es))"

text \<open>The branch rules, and the fields that hold one value or a list of them.\<close>

definition listField :: "jsval \<Rightarrow> jsval list" where
  "listField v = (if truthy v then toStringArray v else [])"

definition branchesOf :: "jsval \<Rightarrow> TravisBranchRules option" where
  "branchesOf nativeBranches =
     (if truthy nativeBranches
      then Some \<lparr> except = listField (get nativeBranches ''except''),
                  only = listField (get nativeBranches ''only'') \<rparr>
      else None)"

text \<open>
  From the decoded value to the descriptor: the part of \<^verbatim>\<open>travisScanner\<close> between the
  decoding and the \<^verbatim>\<open>return\<close>. The first property read throws when the decoded value
  is null or undefined.
\<close>

definition normalize :: "string \<Rightarrow> jsval \<Rightarrow> error + TravisCi" where
  "normalize pname nativeObject =
     (if nativeObject = JNull \<or> nativeObject = JUndefined
      then Inl (TypeError ''Cannot read properties of null'')
      else
       (case envOf (get nativeObject ''env'') of
          Inl err \<Rightarrow> Inl err
        | Inr env' \<Rightarrow>
           (case servicesOf (get nativeObject ''services'') of
              Inl err \<Rightarrow> Inl err
            | Inr services' \<Rightarrow>
               (let travis =
                      \<lparr> name = ''travis'',
                        projectName = pname,
                        branches = branchesOf (get nativeObject ''branches''),
                        language = get nativeObject ''language'',
                        scripts = listField (get nativeObject ''script''),
                        env = env',
                        addons = get nativeObject ''addons'',
                        beforeInstall = listField (get nativeObject ''before_install''),
                        afterSuccess = listField (get nativeObject ''after_success''),
                        services = services',
                        referencedEnvironmentVariables = [],
                        tags = [''travis''],
                        nodeJs = listField (get nativeObject ''node_js''),
                        canEmulate = None \<rparr>
                in Inr (travis \<lparr> canEmulate := Some (\<not> usesUnsupportedFeatures travis) \<rparr>)))))"

text \<open>The body of the \<^verbatim>\<open>try\<close> block.\<close>

definition scanFile ::
  "(string \<Rightarrow> error + jsval) \<Rightarrow> (string \<Rightarrow> error + jsval) \<Rightarrow> string \<Rightarrow> File
     \<Rightarrow> error + TravisCi" where
  "scanFile yaml_parse JSON_parse pname travisYaml =
     (case getContent travisYaml of
        Inl err \<Rightarrow> Inl err
      | Inr content \<Rightarrow>
         (case snd (tryAsYamlThenJson yaml_parse JSON_parse content) of
            Inl err \<Rightarrow> Inl err
          | Inr nativeObject \<Rightarrow> normalize pname nativeObject))"

text \<open>
  The scanner: what was logged, and the descriptor or nothing (\<^verbatim>\<open>undefined\<close>).
\<close>

definition travisScanner ::
  "(string \<Rightarrow> error + jsval) \<Rightarrow> (string \<Rightarrow> error + jsval) \<Rightarrow> project
     \<Rightarrow> logEntry list \<times> TravisCi option" where
  "travisScanner yaml_parse JSON_parse p =
     (case getFile p ''.travis.yml'' of
        None \<Rightarrow> ([], None)
      | Some travisYaml \<Rightarrow>
         (case scanFile yaml_parse JSON_parse (project.name p) travisYaml of
            Inr travis \<Rightarrow> ([], Some travis)
          | Inl e \<Rightarrow> ([Warn ''Cannot parse YAML file: %s'' [message e]], None)))"

section \<open>What the claims are stated with\<close>

subsection \<open>The specification's words for an entry of \<^verbatim>\<open>env\<close>\<close>

text \<open>
  The specification describes an \<^verbatim>\<open>env\<close> entry \<^verbatim>\<open>KEY=VALUE\<close>: it is split at the first
  \<^verbatim>\<open>=\<close>; a value wrapped in one leading and one trailing double quote loses exactly
  those two characters; the mapping takes the key to the value. These definitions follow
  that description, not the code.
\<close>

definition spec_key :: "string \<Rightarrow> string" where
  "spec_key e = takeWhile (\<lambda>c. c \<noteq> CHR ''='') e"

definition spec_value :: "string \<Rightarrow> string" where
  "spec_value e = tl (dropWhile (\<lambda>c. c \<noteq> CHR ''='') e)"




subsection \<open>Shapes of values\<close>

text \<open>A value that opens with a double quote and does not close with one.\<close>

definition unbalanced :: "string \<Rightarrow> bool" where
  "unbalanced v = (v \<noteq> [] \<and> hd v = CHR 0x22 \<and> last v \<noteq> CHR 0x22)"

text \<open>
  The quote rule as the loop applies it, in terms of lists: a value of two characters or
  more that opens with a double quote loses its first and its last character, whatever
  the last one is.
\<close>

definition stripOuter :: "string \<Rightarrow> string" where
  "stripOuter v = (if 2 \<le> length v \<and> hd v = CHR 0x22 then butlast (tl v) else v)"


text \<open>
  The coercion of a field that holds one value or a list of them: a list is itself, a
  value that counts as true is a one-element list, any other value is the empty list.
\<close>

definition scalarOrList :: "jsval \<Rightarrow> jsval list" where
  "scalarOrList v = (case v of JArr xs \<Rightarrow> xs | _ \<Rightarrow> (if truthy v then [v] else []))"

text \<open>The values a \<^verbatim>\<open>for ... of\<close> loop accepts.\<close>

fun iterable :: "jsval \<Rightarrow> bool" where
  "iterable (JArr xs) = True"
| "iterable (JStr s) = True"
| "iterable v = False"

section \<open>Strings: the library calls as list operations\<close>

lemma indexOfFrom_char:
  "indexOfFrom s [c] i =
     (if c \<in> set s then int i + int (length (takeWhile (\<lambda>x. x \<noteq> c) s)) else - 1)"
  by (induction s arbitrary: i) auto

lemma indexOf_char:
  "indexOf s [c] = (if c \<in> set s then int (length (takeWhile (\<lambda>x. x \<noteq> c) s)) else - 1)"
  by (simp add: indexOf_def indexOfFrom_char)

lemma substring_prefix: "substring s 0 (int n) = take n s"
  by (simp add: substring_def clampIndex_def Let_def min_def)

lemma substring_negative: "substring s 0 (- 1) = []"
  by (simp add: substring_def clampIndex_def Let_def)

lemma substringFrom_drop: "substringFrom s (int n) = drop n s"
  by (simp add: substringFrom_def substring_def clampIndex_def Let_def min_def max_def)

lemma clampIndex_nat: "clampIndex (int n) len = min n len"
  by (simp add: clampIndex_def min_def)

lemma clampIndex_pred: "clampIndex (int len - 1) len = len - 1"
  by (cases len) (simp_all add: clampIndex_def)

lemma substring_inner:
  "substring s 1 (int (length s) - 1) = (if 2 \<le> length s then butlast (tl s) else s)"
proof (cases "2 \<le> length s")
  case True
  have one: "clampIndex 1 (length s) = 1"
    using True clampIndex_nat [of 1 "length s"] by simp
  have "substring s 1 (int (length s) - 1) = take (length s - 1 - 1) (drop 1 s)"
    using True by (simp add: substring_def one clampIndex_pred Let_def min_def max_def)
  also have "\<dots> = butlast (tl s)"
    by (simp add: butlast_conv_take drop_Suc)
  finally show ?thesis using True by simp
next
  case False
  then consider "s = []" | c where "s = [c]"
    by (cases s; cases "tl s") auto
  then show ?thesis
  proof cases
    case 1
    then show ?thesis by (simp add: substring_def clampIndex_def)
  next
    case 2
    then show ?thesis by (simp add: substring_def clampIndex_def)
  qed
qed

lemma startsWith_char: "startsWith v [c] = (v \<noteq> [] \<and> hd v = c)"
  by (cases v) (auto simp: startsWith_def)

lemma envEntry_with_eq:
  assumes "CHR ''='' \<in> set e"
  shows "envEntry e = (takeWhile (\<lambda>c. c \<noteq> CHR ''='') e,
                       stripOuter (tl (dropWhile (\<lambda>c. c \<noteq> CHR ''='') e)))"
proof -
  let ?k = "takeWhile (\<lambda>c. c \<noteq> CHR ''='') e"
  let ?v = "tl (dropWhile (\<lambda>c. c \<noteq> CHR ''='') e)"
  have key: "substring e 0 (indexOf e ''='') = ?k"
    using assms by (simp add: indexOf_char substring_prefix takeWhile_eq_take [symmetric])
  have "int (length ?k) + 1 = int (Suc (length ?k))"
    by simp
  then have "substringFrom e (int (length ?k) + 1) = drop (Suc (length ?k)) e"
    by (simp only: substringFrom_drop)
  also have "\<dots> = ?v"
    by (simp add: drop_Suc tl_drop dropWhile_eq_drop)
  finally have val: "substringFrom e (int (length ?k) + 1) = ?v" .
  show ?thesis
    unfolding envEntry_def key val Let_def startsWith_char substring_inner stripOuter_def
    by (cases ?v) auto
qed

lemma envEntry_without_eq:
  assumes "CHR ''='' \<notin> set e"
  shows "envEntry e = ([], stripOuter (tl e))"
proof -
  have key: "substring e 0 (indexOf e ''='') = []"
    using assms by (simp add: indexOf_char substring_negative)
  have val: "substringFrom e (int (length ([]::string)) + 1) = tl e"
    using substringFrom_drop [of e 1] by (simp add: drop_Suc)
  show ?thesis
    unfolding envEntry_def key val Let_def startsWith_char substring_inner stripOuter_def
    by (cases "tl e") auto
qed


lemma stripOuter_unbalanced: "unbalanced v \<Longrightarrow> stripOuter v = butlast (tl v)"
  by (cases v; cases "tl v") (auto simp: stripOuter_def unbalanced_def)

section \<open>The loops and the descriptor\<close>

lemma envLoop_strings:
  "envLoop acc (map JStr es) =
     Inr (foldl (\<lambda>m e. assign m (fst (envEntry e)) (snd (envEntry e))) acc es)"
  by (induction es arbitrary: acc) (simp_all split: prod.splits)

lemma envOf_strings:
  "envOf (JArr (map JStr es)) =
     Inr (foldl (\<lambda>m e. assign m (fst (envEntry e)) (snd (envEntry e))) Map.empty es)"
  by (simp add: envOf_def orElse_def envLoop_strings)


lemma assign_other: "key \<noteq> k \<Longrightarrow> assign m key v k = m k"
  by (simp add: assign_def)

lemma assign_update: "key \<noteq> ''__proto__'' \<Longrightarrow> assign m key v = m(key \<mapsto> v)"
  by (simp add: assign_def)

lemma assigned_later_untouched:
  "\<forall>x\<in>set es. fst (f x) \<noteq> k \<Longrightarrow>
     foldl (\<lambda>m e. assign m (fst (f e)) (snd (f e))) acc es k = acc k"
  by (induction es arbitrary: acc) (simp_all add: assign_other)

lemma assigned_last_wins:
  assumes "fst (f e) = k" and "k \<noteq> ''__proto__''" and "\<forall>x\<in>set es'. fst (f x) \<noteq> k"
  shows "foldl (\<lambda>m e. assign m (fst (f e)) (snd (f e))) acc (es @ e # es') k = Some (snd (f e))"
  using assms by (simp add: assigned_later_untouched assign_update)



lemma normalize_env:
  "normalize pname nativeObject = Inr travis \<Longrightarrow> envOf (get nativeObject ''env'') = Inr (env travis)"
  by (auto simp: normalize_def Let_def split: if_splits sum.splits)


lemma normalize_fields:
  assumes "normalize pname nativeObject = Inr travis"
  shows "scripts travis = listField (get nativeObject ''script'')"
    and "beforeInstall travis = listField (get nativeObject ''before_install'')"
    and "afterSuccess travis = listField (get nativeObject ''after_success'')"
    and "nodeJs travis = listField (get nativeObject ''node_js'')"
    and "branches travis = branchesOf (get nativeObject ''branches'')"
    and "addons travis = get nativeObject ''addons''"
    and "canEmulate travis = Some (\<not> truthy (get nativeObject ''addons''))"
  using assms
  by (auto simp: normalize_def Let_def usesUnsupportedFeatures_def split: if_splits sum.splits)

lemma normalize_succeeds:
  assumes "envOf (get nativeObject ''env'') = Inr m"
    and "servicesOf (get nativeObject ''services'') = Inr sv"
    and "nativeObject \<noteq> JNull" and "nativeObject \<noteq> JUndefined"
  shows "\<exists>travis. normalize pname nativeObject = Inr travis \<and> env travis = m \<and> services travis = sv"
  using assms by (simp add: normalize_def Let_def)

text \<open>
  The scanner on a file that decodes: it returns the descriptor that \<open>normalize\<close> builds
  from the decoded value, or logs what \<open>normalize\<close> threw.
\<close>

lemma travisScanner_normalize:
  assumes "getFile p ''.travis.yml'' = Some f"
    and "getContent f = Inr c"
    and "snd (tryAsYamlThenJson yaml_parse JSON_parse c) = Inr nativeObject"
  shows "travisScanner yaml_parse JSON_parse p =
           (case normalize (project.name p) nativeObject of
              Inr travis \<Rightarrow> ([], Some travis)
            | Inl e \<Rightarrow> ([Warn ''Cannot parse YAML file: %s'' [message e]], None))"
  using assms by (simp add: travisScanner_def scanFile_def)

lemma listField_scalarOrList: "listField v = scalarOrList v"
  by (cases v) (simp_all add: listField_def scalarOrList_def toStringArray_def)


lemma iterate_not_iterable: "\<not> iterable v \<Longrightarrow> \<exists>err. iterate v = Inl err"
  by (cases v) simp_all

lemmas scan_simps =
  normalize_def envOf_def servicesOf_def orElse_def listField_def branchesOf_def
  toStringArray_def usesUnsupportedFeatures_def assign_def Let_def

lemmas string_simps =
  envEntry_def indexOf_def substring_def substringFrom_def clampIndex_def startsWith_def

section \<open>The claims\<close>

text \<open>
  C1. The claim: \<^verbatim>\<open>canEmulate\<close> is false when the input has an \<^verbatim>\<open>addons\<close> key with any
  value, and true when it has none. The code tests \<^verbatim>\<open>!!travis.addons\<close>, so what decides
  is whether the value counts as true: \<^verbatim>\<open>usesUnsupportedFeatures\<close> holds exactly when
  the \<^verbatim>\<open>addons\<close> value of the input is neither absent nor null, false, zero, NaN or the
  empty string; \<^verbatim>\<open>canEmulate\<close> is its negation, and it is true when there is no
  \<^verbatim>\<open>addons\<close> key.
\<close>

theorem canEmulate_iff_addons_falsy:
  assumes "normalize pname nativeObject = Inr travis"
  shows "usesUnsupportedFeatures travis = truthy (get nativeObject ''addons'')
       \<and> canEmulate travis = Some (\<not> usesUnsupportedFeatures travis)
       \<and> (get nativeObject ''addons'' = JUndefined \<longrightarrow> canEmulate travis = Some True)"
  using normalize_fields(6,7) [OF assms]
  by (auto simp: usesUnsupportedFeatures_def)

text \<open>With \<^verbatim>\<open>addons: false\<close> the key is there and \<^verbatim>\<open>canEmulate\<close> is true.\<close>

theorem canEmulate_addons_false_counterexample:
  "get (JObj [(''addons'', JBool False)]) ''addons'' = JBool False
   \<and> map_sum id canEmulate (normalize ''p'' (JObj [(''addons'', JBool False)])) = Inr (Some True)"
  by (simp add: scan_simps)

theorem canEmulate_iff_addons_falsy_witness:
  "map_sum id canEmulate
     (normalize ''p'' (JObj [(''addons'', JObj [(''chrome'', JStr ''stable'')])])) = Inr (Some False)
   \<and> map_sum id canEmulate (normalize ''p'' (JObj [(''language'', JStr ''node_js'')])) = Inr (Some True)"
proof -
  obtain t where t: "normalize ''p'' (JObj [(''addons'', JObj [(''chrome'', JStr ''stable'')])]) = Inr t"
    by (simp add: scan_simps)
  obtain u where u: "normalize ''p'' (JObj [(''language'', JStr ''node_js'')]) = Inr u"
    by (simp add: scan_simps)
  from canEmulate_iff_addons_falsy [OF t] have "canEmulate t = Some False"
    by simp
  moreover from canEmulate_iff_addons_falsy [OF u] have "canEmulate u = Some True"
    by simp
  ultimately show ?thesis
    by (simp add: t u)
qed




text \<open>
  C3. The claim: each of \<^verbatim>\<open>script\<close>, \<^verbatim>\<open>before_install\<close>, \<^verbatim>\<open>after_success\<close> and
  \<^verbatim>\<open>node_js\<close> becomes a one-element sequence when it is a bare scalar, itself when it
  is a list, and the empty sequence when it is absent. The code guards the coercion
  with \<^verbatim>\<open>value ? toStringArray(value) : []\<close>, so a scalar that counts as false gives the
  empty sequence. What holds for the four fields: a list is stored unchanged; a value
  that counts as true and is not a list is stored as a one-element sequence; an absent
  value, and any value that counts as false, gives the empty sequence.
\<close>

theorem list_fields_coerced:
  assumes "normalize pname nativeObject = Inr travis"
    and "(field, normalized) \<in> set [(''script'', scripts travis),
                                      (''before_install'', beforeInstall travis),
                                      (''after_success'', afterSuccess travis),
                                      (''node_js'', nodeJs travis)]"
  shows "(\<forall>xs. get nativeObject field = JArr xs \<longrightarrow> normalized = xs)
       \<and> (truthy (get nativeObject field) \<and> (\<forall>xs. get nativeObject field \<noteq> JArr xs)
            \<longrightarrow> normalized = [get nativeObject field])
       \<and> (\<not> truthy (get nativeObject field) \<longrightarrow> normalized = [])
       \<and> (get nativeObject field = JUndefined \<longrightarrow> normalized = [])"
proof -
  have "normalized = scalarOrList (get nativeObject field)"
    using assms(2) normalize_fields(1-4) [OF assms(1)]
    by (auto simp: listField_scalarOrList)
  then show ?thesis
    by (cases "get nativeObject field") (auto simp: scalarOrList_def)
qed

text \<open>
  With \<^verbatim>\<open>script: ""\<close> the field is a bare scalar and \<^verbatim>\<open>scripts\<close> is empty.
\<close>

theorem list_field_empty_string_counterexample:
  "get (JObj [(''script'', JStr '''')]) ''script'' = JStr ''''
   \<and> map_sum id scripts (normalize ''p'' (JObj [(''script'', JStr '''')])) = Inr []"
  by (simp add: scan_simps)

theorem list_fields_coerced_witness:
  "map_sum id scripts (normalize ''p'' (JObj [(''script'', JStr ''npm test'')]))
     = Inr [JStr ''npm test'']
   \<and> map_sum id nodeJs (normalize ''p'' (JObj [(''node_js'', JArr [JStr ''8'', JStr ''10''])]))
     = Inr [JStr ''8'', JStr ''10'']
   \<and> map_sum id afterSuccess (normalize ''p'' (JObj [(''language'', JStr ''c'')])) = Inr []"
proof -
  let ?a = "JObj [(''script'', JStr ''npm test'')]"
  let ?b = "JObj [(''node_js'', JArr [JStr ''8'', JStr ''10''])]"
  let ?c = "JObj [(''language'', JStr ''c'')]"
  obtain t where t: "normalize ''p'' ?a = Inr t"
    by (simp add: scan_simps)
  obtain u where u: "normalize ''p'' ?b = Inr u"
    by (simp add: scan_simps)
  obtain w where w: "normalize ''p'' ?c = Inr w"
    by (simp add: scan_simps)
  have "scripts t = [JStr ''npm test'']"
    using list_fields_coerced [OF t, of "''script''" "scripts t"] by simp
  moreover have "nodeJs u = [JStr ''8'', JStr ''10'']"
    using list_fields_coerced [OF u, of "''node_js''" "nodeJs u"] by simp
  moreover have "afterSuccess w = []"
    using list_fields_coerced [OF w, of "''after_success''" "afterSuccess w"] by simp
  ultimately show ?thesis
    by (simp add: t u w)
qed




text \<open>
  C5. The claim: a \<^verbatim>\<open>branches\<close> stanza that is present gives an object whose \<^verbatim>\<open>only\<close>
  and \<^verbatim>\<open>except\<close> are the coerced sub-fields, and an absent stanza gives an absent field.
  The code tests \<^verbatim>\<open>nativeObject.branches ? ... : undefined\<close>, and each sub-field the same
  way. What holds: a stanza that counts as true gives the object, with \<^verbatim>\<open>only\<close> and
  \<^verbatim>\<open>except\<close> coerced as in C3 (a list is itself, a value that counts as true is a
  one-element sequence, an absent or false one is empty); a stanza that is absent or
  counts as false gives an absent field.
\<close>

theorem branches_from_stanza:
  assumes "normalize pname nativeObject = Inr travis"
  shows "(truthy (get nativeObject ''branches'') \<longrightarrow>
            branches travis =
              Some \<lparr> except = scalarOrList (get (get nativeObject ''branches'') ''except''),
                     only = scalarOrList (get (get nativeObject ''branches'') ''only'') \<rparr>)
       \<and> (\<not> truthy (get nativeObject ''branches'') \<longrightarrow> branches travis = None)
       \<and> (get nativeObject ''branches'' = JUndefined \<longrightarrow> branches travis = None)"
  using normalize_fields(5) [OF assms]
  by (auto simp: branchesOf_def listField_scalarOrList)

text \<open>
  With \<^verbatim>\<open>branches: false\<close> the stanza is there and the field is absent.
\<close>

theorem branches_false_counterexample:
  "get (JObj [(''branches'', JBool False)]) ''branches'' = JBool False
   \<and> map_sum id branches (normalize ''p'' (JObj [(''branches'', JBool False)])) = Inr None"
  by (simp add: scan_simps)

theorem branches_from_stanza_witness:
  "map_sum id branches
     (normalize ''p'' (JObj [(''branches'', JObj [(''only'', JStr ''master'')])]))
     = Inr (Some \<lparr> except = [], only = [JStr ''master''] \<rparr>)
   \<and> map_sum id branches (normalize ''p'' (JObj [(''language'', JStr ''c'')])) = Inr None"
proof -
  let ?a = "JObj [(''branches'', JObj [(''only'', JStr ''master'')])]"
  let ?c = "JObj [(''language'', JStr ''c'')]"
  obtain t where t: "normalize ''p'' ?a = Inr t"
    by (simp add: scan_simps)
  obtain w where w: "normalize ''p'' ?c = Inr w"
    by (simp add: scan_simps)
  have "branches t = Some \<lparr> except = [], only = [JStr ''master''] \<rparr>"
    using branches_from_stanza [OF t] by (simp add: scalarOrList_def)
  moreover have "branches w = None"
    using branches_from_stanza [OF w] by simp
  ultimately show ?thesis
    by (simp add: t w)
qed

text \<open>
  C6. The decoder calls the YAML parser first. It calls the JSON parser exactly when
  the YAML parser threw. When YAML succeeds the result is YAML's; when YAML throws, the
  result is the JSON parser's on the same text: its value when it succeeds, which is
  what parsing the text as JSON gives, and its error when it throws.
\<close>

theorem yaml_first_then_json:
  "(\<exists>ps. fst (tryAsYamlThenJson yaml_parse JSON_parse content) = Yaml # ps)
   \<and> (Json \<in> set (fst (tryAsYamlThenJson yaml_parse JSON_parse content))
        \<longleftrightarrow> (\<exists>err. yaml_parse content = Inl err))
   \<and> (\<forall>v. yaml_parse content = Inr v
          \<longrightarrow> snd (tryAsYamlThenJson yaml_parse JSON_parse content) = Inr v)
   \<and> (\<forall>err err'. yaml_parse content = Inl err \<and> JSON_parse content = Inl err'
          \<longrightarrow> snd (tryAsYamlThenJson yaml_parse JSON_parse content) = Inl err')
   \<and> (\<forall>err v. yaml_parse content = Inl err \<and> JSON_parse content = Inr v
          \<longrightarrow> snd (tryAsYamlThenJson yaml_parse JSON_parse content) = Inr v)"
  by (cases "yaml_parse content") (simp_all add: tryAsYamlThenJson_def)

theorem yaml_first_then_json_witness:
  "tryAsYamlThenJson (\<lambda>s. if s = ''[[1]]'' then Inl (Error ''Malformed inline YAML'') else Inr (JStr s))
     (\<lambda>s. if s = ''[[1]]'' then Inr (JArr [JArr [JNum ''1'']]) else Inl (Error ''Unexpected token''))
     ''[[1]]'' = ([Yaml, Json], Inr (JArr [JArr [JNum ''1'']]))
   \<and> snd (tryAsYamlThenJson (\<lambda>s. Inl (Error ''Malformed inline YAML''))
            (\<lambda>s. Inl (Error ''Unexpected end of JSON input'')) ''['')
       = Inl (Error ''Unexpected end of JSON input'')"
proof -
  let ?y = "\<lambda>s. if s = ''[[1]]'' then Inl (Error ''Malformed inline YAML'') else Inr (JStr s)"
  let ?j = "\<lambda>s. if s = ''[[1]]'' then Inr (JArr [JArr [JNum ''1'']])
                else Inl (Error ''Unexpected token'')"
  let ?y' = "\<lambda>s::string. (Inl (Error ''Malformed inline YAML'') :: error + jsval)"
  let ?j' = "\<lambda>s::string. (Inl (Error ''Unexpected end of JSON input'') :: error + jsval)"
  have a: "snd (tryAsYamlThenJson ?y ?j ''[[1]]'') = Inr (JArr [JArr [JNum ''1'']])"
    using yaml_first_then_json [of ?y ?j "''[[1]]''"] by simp
  have b: "Json \<in> set (fst (tryAsYamlThenJson ?y ?j ''[[1]]''))"
    using yaml_first_then_json [of ?y ?j "''[[1]]''"] by simp
  have c: "snd (tryAsYamlThenJson ?y' ?j' ''['') = Inl (Error ''Unexpected end of JSON input'')"
    using yaml_first_then_json [of ?y' ?j' "''[''"] by simp
  have "fst (tryAsYamlThenJson ?y ?j ''[[1]]'') = [Yaml, Json]"
    using b by (simp add: tryAsYamlThenJson_def)
  with a c show ?thesis
    by (simp add: prod_eq_iff)
qed

text \<open>
  C7. With no descriptor file the scanner returns nothing and logs nothing. When
  reading the file, decoding it (neither parser accepts the text) or building the
  descriptor throws, the scanner returns nothing and logs one warning with the message
  of what was thrown. A descriptor that is returned is the complete one, with nothing
  logged. The scanner has no other outcome: nothing thrown inside reaches the caller.
\<close>

theorem scanner_absent_or_failed:
  "(getFile p ''.travis.yml'' = None \<longrightarrow> travisScanner yaml_parse JSON_parse p = ([], None))
   \<and> (\<forall>f e. getFile p ''.travis.yml'' = Some f \<and> getContent f = Inl e
         \<longrightarrow> travisScanner yaml_parse JSON_parse p
               = ([Warn ''Cannot parse YAML file: %s'' [message e]], None))
   \<and> (\<forall>f c e' e. getFile p ''.travis.yml'' = Some f \<and> getContent f = Inr c
           \<and> yaml_parse c = Inl e' \<and> JSON_parse c = Inl e
         \<longrightarrow> travisScanner yaml_parse JSON_parse p
               = ([Warn ''Cannot parse YAML file: %s'' [message e]], None))
   \<and> (\<forall>f c nativeObject e. getFile p ''.travis.yml'' = Some f \<and> getContent f = Inr c
           \<and> snd (tryAsYamlThenJson yaml_parse JSON_parse c) = Inr nativeObject
           \<and> normalize (project.name p) nativeObject = Inl e
         \<longrightarrow> travisScanner yaml_parse JSON_parse p
               = ([Warn ''Cannot parse YAML file: %s'' [message e]], None))
   \<and> (\<forall>travis. snd (travisScanner yaml_parse JSON_parse p) = Some travis
         \<longrightarrow> fst (travisScanner yaml_parse JSON_parse p) = []
             \<and> (\<exists>f c nativeObject. getFile p ''.travis.yml'' = Some f
                   \<and> getContent f = Inr c
                   \<and> snd (tryAsYamlThenJson yaml_parse JSON_parse c) = Inr nativeObject
                   \<and> normalize (project.name p) nativeObject = Inr travis))"
proof (intro conjI allI impI)
  assume "getFile p ''.travis.yml'' = None"
  then show "travisScanner yaml_parse JSON_parse p = ([], None)"
    by (simp add: travisScanner_def)
next
  fix f e
  assume "getFile p ''.travis.yml'' = Some f \<and> getContent f = Inl e"
  then show "travisScanner yaml_parse JSON_parse p
               = ([Warn ''Cannot parse YAML file: %s'' [message e]], None)"
    by (simp add: travisScanner_def scanFile_def)
next
  fix f c e' e
  assume "getFile p ''.travis.yml'' = Some f \<and> getContent f = Inr c
           \<and> yaml_parse c = Inl e' \<and> JSON_parse c = Inl e"
  then show "travisScanner yaml_parse JSON_parse p
               = ([Warn ''Cannot parse YAML file: %s'' [message e]], None)"
    by (simp add: travisScanner_def scanFile_def tryAsYamlThenJson_def)
next
  fix f c nativeObject e
  assume "getFile p ''.travis.yml'' = Some f \<and> getContent f = Inr c
           \<and> snd (tryAsYamlThenJson yaml_parse JSON_parse c) = Inr nativeObject
           \<and> normalize (project.name p) nativeObject = Inl e"
  then show "travisScanner yaml_parse JSON_parse p
               = ([Warn ''Cannot parse YAML file: %s'' [message e]], None)"
    by (simp add: travisScanner_def scanFile_def)
next
  fix travis
  assume "snd (travisScanner yaml_parse JSON_parse p) = Some travis"
  then show "fst (travisScanner yaml_parse JSON_parse p) = []"
    by (auto simp: travisScanner_def split: option.splits sum.splits)
next
  fix travis
  assume "snd (travisScanner yaml_parse JSON_parse p) = Some travis"
  then show "\<exists>f c nativeObject. getFile p ''.travis.yml'' = Some f
                   \<and> getContent f = Inr c
                   \<and> snd (tryAsYamlThenJson yaml_parse JSON_parse c) = Inr nativeObject
                   \<and> normalize (project.name p) nativeObject = Inr travis"
    by (auto simp: travisScanner_def scanFile_def split: option.splits sum.splits)
qed

theorem scanner_absent_or_failed_witness:
  "travisScanner (\<lambda>s. Inl (Error ''Malformed inline YAML''))
     (\<lambda>s. Inl (Error ''Unexpected end of JSON input''))
     \<lparr> project.name = ''demo'', getFile = (\<lambda>path. None) \<rparr> = ([], None)
   \<and> travisScanner (\<lambda>s. Inl (Error ''Malformed inline YAML''))
       (\<lambda>s. Inl (Error ''Unexpected end of JSON input''))
       \<lparr> project.name = ''demo'',
         getFile = (\<lambda>path. if path = ''.travis.yml'' then Some \<lparr> getContent = Inr ''['' \<rparr>
                            else None) \<rparr>
     = ([Warn ''Cannot parse YAML file: %s'' [''Unexpected end of JSON input'']], None)"
proof -
  let ?y = "\<lambda>s::string. (Inl (Error ''Malformed inline YAML'') :: error + jsval)"
  let ?j = "\<lambda>s::string. (Inl (Error ''Unexpected end of JSON input'') :: error + jsval)"
  let ?p = "\<lparr> project.name = ''demo'', getFile = (\<lambda>path. None) \<rparr>"
  let ?q = "\<lparr> project.name = ''demo'',
              getFile = (\<lambda>path. if path = ''.travis.yml'' then Some \<lparr> getContent = Inr ''['' \<rparr>
                                 else None) \<rparr>"
  have "travisScanner ?y ?j ?p = ([], None)"
    using scanner_absent_or_failed [of ?p ?y ?j] by simp
  moreover have "travisScanner ?y ?j ?q
      = ([Warn ''Cannot parse YAML file: %s'' [''Unexpected end of JSON input'']], None)"
    using scanner_absent_or_failed [of ?q ?y ?j] by simp
  ultimately show ?thesis
    by simp
qed

text \<open>
  C8. An entry \<^verbatim>\<open>KEY=VALUE\<close> whose value opens with a double quote and does not close
  with one is stored without the first and the last character of the value, whatever
  the last character is. The key is read in the finished mapping, so no later entry
  writes the same key, and the key is not \<^verbatim>\<open>__proto__\<close>.
\<close>

theorem env_unbalanced_quote:
  assumes "normalize pname nativeObject = Inr travis"
    and "get nativeObject ''env'' = JArr (map JStr (es @ e # es'))"
    and "CHR ''='' \<in> set e"
    and "unbalanced (spec_value e)"
    and "spec_key e \<noteq> ''__proto__''"
    and "\<forall>x\<in>set es'. fst (envEntry x) \<noteq> spec_key e"
  shows "env travis (spec_key e) = Some (butlast (tl (spec_value e)))"
proof -
  have entry: "envEntry e = (spec_key e, butlast (tl (spec_value e)))"
    using assms(3,4)
    by (simp add: envEntry_with_eq stripOuter_unbalanced spec_key_def spec_value_def)
  have "envOf (get nativeObject ''env'') = Inr (env travis)"
    by (rule normalize_env [OF assms(1)])
  then have "env travis =
      foldl (\<lambda>m e. assign m (fst (envEntry e)) (snd (envEntry e))) Map.empty (es @ e # es')"
    unfolding assms(2) envOf_strings by simp
  moreover have "foldl (\<lambda>m e. assign m (fst (envEntry e)) (snd (envEntry e))) Map.empty
      (es @ e # es') (spec_key e) = Some (snd (envEntry e))"
    using assms(5,6) by (intro assigned_last_wins) (simp_all add: entry)
  ultimately show ?thesis
    by (simp add: entry)
qed

theorem env_unbalanced_quote_witness:
  \<open>map_sum id (\<lambda>travis. env travis ''X'')
     (normalize ''p'' (JObj [(''env'', JArr [JStr ''X="abc''])])) = Inr (Some ''ab'')\<close>
proof -
  let ?obj = \<open>JObj [(''env'', JArr [JStr ''X="abc''])]\<close>
  obtain t where t: "normalize ''p'' ?obj = Inr t"
    by (simp add: scan_simps string_simps)
  have \<open>env t (spec_key ''X="abc'') = Some (butlast (tl (spec_value ''X="abc'')))\<close>
    using env_unbalanced_quote [OF t, of "[]" \<open>''X="abc''\<close> "[]"]
    by (simp add: spec_key_def spec_value_def unbalanced_def)
  then have "env t ''X'' = Some ''ab''"
    by (simp add: spec_key_def spec_value_def)
  then show ?thesis
    by (simp add: t)
qed

text \<open>
  C9. The claim: an entry with no \<^verbatim>\<open>=\<close> is stored under the empty key, its value
  being the entry without its first character. The quote rule applies to that value
  too. What holds: the loop does not throw on such an entry and does not skip it; the
  key is the empty string; the value is the entry without its first character, and when
  what is left has two characters or more and opens with a double quote, without the
  first and last character of that as well. The descriptor is built when the services
  are (the entry itself never makes the scan fail), and no later entry has the empty key.
\<close>

theorem env_entry_without_equals:
  assumes "get nativeObject ''env'' = JArr (map JStr (es @ e # es'))"
    and "CHR ''='' \<notin> set e"
    and "\<forall>x\<in>set es'. fst (envEntry x) \<noteq> []"
    and "servicesOf (get nativeObject ''services'') = Inr sv"
  shows "map_sum id (\<lambda>travis. env travis []) (normalize pname nativeObject) =
           Inr (Some (if 2 \<le> length (tl e) \<and> hd (tl e) = CHR 0x22
                      then butlast (tl (tl e)) else tl e))"
proof -
  let ?loop = "foldl (\<lambda>m e. assign m (fst (envEntry e)) (snd (envEntry e))) Map.empty
                 (es @ e # es')"
  have entry: "envEntry e = ([], stripOuter (tl e))"
    using assms(2) by (rule envEntry_without_eq)
  have env: "envOf (get nativeObject ''env'') = Inr ?loop"
    unfolding assms(1) by (rule envOf_strings)
  have "nativeObject \<noteq> JNull" and "nativeObject \<noteq> JUndefined"
    using assms(1) by auto
  with env assms(4) obtain travis
    where travis: "normalize pname nativeObject = Inr travis" and "env travis = ?loop"
    using normalize_succeeds by blast
  moreover have "?loop [] = Some (snd (envEntry e))"
    using assms(3) by (intro assigned_last_wins) (simp_all add: entry)
  ultimately show ?thesis
    by (simp add: entry stripOuter_def)
qed

text \<open>
  With the entry \<^verbatim>\<open>a"bc\<close> the stored value is \<^verbatim>\<open>b\<close>, not \<^verbatim>\<open>"bc\<close>.
\<close>

theorem env_entry_without_equals_counterexample:
  \<open>map_sum id env (normalize ''p'' (JObj [(''env'', JArr [JStr ''a"bc''])]))
     = Inr [[] \<mapsto> ''b'']\<close>
  by (simp add: scan_simps string_simps)

theorem env_entry_without_equals_witness:
  "map_sum id (\<lambda>travis. env travis [])
     (normalize ''p'' (JObj [(''env'', JArr [JStr ''FOO''])])) = Inr (Some ''OO'')"
  using env_entry_without_equals
          [of "JObj [(''env'', JArr [JStr ''FOO''])]" "[]" "''FOO''" "[]" Map.empty "''p''"]
  by (simp add: servicesOf_def orElse_def)

text \<open>
  C10. When the decoded \<^verbatim>\<open>env\<close> counts as true and is not iterable (a mapping, a
  number, \<^verbatim>\<open>true\<close>), the scanner returns nothing for the project, and logs one warning.
\<close>

theorem env_not_iterable:
  assumes "getFile p ''.travis.yml'' = Some f"
    and "getContent f = Inr c"
    and "snd (tryAsYamlThenJson yaml_parse JSON_parse c) = Inr nativeObject"
    and "truthy (get nativeObject ''env'')"
    and "\<not> iterable (get nativeObject ''env'')"
  shows "snd (travisScanner yaml_parse JSON_parse p) = None
       \<and> length (fst (travisScanner yaml_parse JSON_parse p)) = 1"
proof -
  obtain err where "iterate (get nativeObject ''env'') = Inl err"
    using assms(5) iterate_not_iterable by blast
  then have "envOf (get nativeObject ''env'') = Inl err"
    using assms(4) by (simp add: envOf_def orElse_def)
  then have "\<exists>e. normalize (project.name p) nativeObject = Inl e"
    by (simp add: normalize_def)
  then show ?thesis
    using assms(1-3) by (auto simp: travisScanner_def scanFile_def)
qed

theorem env_not_iterable_witness:
  "travisScanner (\<lambda>s. Inr (JObj [(''script'', JStr ''make''),
                                   (''env'', JObj [(''global'', JArr [JStr ''A=b''])])]))
     (\<lambda>s. Inl (Error ''Unexpected token''))
     \<lparr> project.name = ''demo'',
       getFile = (\<lambda>path. if path = ''.travis.yml''
                          then Some \<lparr> getContent = Inr ''script: make'' \<rparr> else None) \<rparr>
   = ([Warn ''Cannot parse YAML file: %s'' [''value is not iterable'']], None)"
proof -
  let ?obj = "JObj [(''script'', JStr ''make''),
                    (''env'', JObj [(''global'', JArr [JStr ''A=b''])])]"
  let ?y = "\<lambda>s::string. (Inr ?obj :: error + jsval)"
  let ?j = "\<lambda>s::string. (Inl (Error ''Unexpected token'') :: error + jsval)"
  let ?f = "\<lparr> getContent = Inr ''script: make'' \<rparr>"
  let ?p = "\<lparr> project.name = ''demo'',
              getFile = (\<lambda>path. if path = ''.travis.yml'' then Some ?f else None) \<rparr>"
  have "snd (travisScanner ?y ?j ?p) = None \<and> length (fst (travisScanner ?y ?j ?p)) = 1"
    by (rule env_not_iterable [of ?p ?f "''script: make''" ?y ?j ?obj])
       (simp_all add: tryAsYamlThenJson_def)
  moreover have "fst (travisScanner ?y ?j ?p)
      = [Warn ''Cannot parse YAML file: %s'' [''value is not iterable'']]"
    by (simp add: travisScanner_def scanFile_def tryAsYamlThenJson_def scan_simps)
  ultimately show ?thesis
    by (simp add: prod_eq_iff)
qed

end
